theory Spec2Isabelle
  imports Complex_Main "HOL-Library.AList"
begin

section \<open>Errors\<close>

text \<open>
  Every exception the Python code can raise is a value. \<open>ExternalError\<close> stands for
  whatever a library outside the repository raises (pandas, scipy, LightGBM, GEKKO,
  the network clients).
\<close>

datatype py_error =
    FileNotFoundError
  | IndexError
  | KeyError string
  | NameError string
  | TypeError
  | ValueError
  | ExternalError string

section \<open>utils/helpers.py\<close>

subsection \<open>TUNNEL_CONSTANTS\<close>

definition L1_MIN :: real where "L1_MIN = 0.5"
definition L1_MAX :: real where "L1_MAX = 30.0"
definition L2_LEVEL :: real where "L2_LEVEL = 40.0"
definition TIMESTEP_MINUTES :: real where "TIMESTEP_MINUTES = 15"
definition TIME_STEPS_PER_HOUR :: real where "TIME_STEPS_PER_HOUR = 4"

subsection \<open>get_level_volume_interpolator\<close>

text \<open>
  The function returns two Python callables, of one of two kinds: a scipy \<open>interp1d\<close>
  object, or one of the two fallback lambdas. Called on a number both kinds compute a
  number. Called on a Python list they differ: the \<open>interp1d\<close> object converts the
  list into an array and interpolates each element, while the body of a fallback
  lambda applies its arithmetic to the list and a number (\<open>V - 350\<close>,
  \<open>10000 * L1 + 350\<close>), which raises \<open>TypeError\<close>.
\<close>

datatype py_callable = PyLambda "real \<Rightarrow> real" | PyInterp1d "real \<Rightarrow> real"

definition call :: "py_callable \<Rightarrow> real \<Rightarrow> real" where
  "call f x = (case f of PyLambda g \<Rightarrow> g x | PyInterp1d g \<Rightarrow> g x)"

definition call_on_list :: "py_callable \<Rightarrow> real list \<Rightarrow> py_error + real list" where
  "call_on_list f xs = (case f of PyLambda g \<Rightarrow> Inl TypeError | PyInterp1d g \<Rightarrow> Inr (map g xs))"

text \<open>
  The two library calls of the function are parameters: \<open>csv\<close> is the outcome of
  \<open>pd.read_csv(volume_file)\<close> followed by the extraction of the first two columns
  (level, volume), and \<open>interp1d\<close> is scipy's constructor of a linear interpolant.
  The \<open>try\<close> block covers both; only \<open>FileNotFoundError\<close> is caught, and the
  handler returns the affine model and its inverse. Any other exception propagates.
\<close>

type_synonym interpolators = "py_callable \<times> py_callable"

definition get_level_volume_interpolator ::
  "(real list \<Rightarrow> real list \<Rightarrow> py_error + (real \<Rightarrow> real)) \<Rightarrow>
   (py_error + real list \<times> real list) \<Rightarrow> py_error + interpolators" where
  "get_level_volume_interpolator interp1d csv =
     (let body =
        (case csv of
           Inl e \<Rightarrow> Inl e
         | Inr (level, volume) \<Rightarrow>
             (case interp1d level volume of
                Inl e \<Rightarrow> Inl e
              | Inr interp_v_l \<Rightarrow>
                  (case interp1d volume level of
                     Inl e \<Rightarrow> Inl e
                   | Inr interp_l_v \<Rightarrow> Inr (PyInterp1d interp_v_l, PyInterp1d interp_l_v))))
      in case body of
           Inl e \<Rightarrow>
             (if e = FileNotFoundError
              then Inr (PyLambda (\<lambda>L1. 10000 * L1 + 350), PyLambda (\<lambda>V. (V - 350) / 10000))
              else Inl e)
         | Inr r \<Rightarrow> Inr r)"

subsection \<open>calculate_power\<close>

definition calculate_power :: "real \<Rightarrow> real \<Rightarrow> real" where
  "calculate_power Q_total_m3h L1_m =
     (let rho = 1000;
          g = 9.81;
          L2 = L2_LEVEL;
          H_static = L2 - L1_m;
          H_friction = 1.0;
          H_total = H_static + H_friction;
          Q_m3_s = Q_total_m3h / 3600;
          ETA_TOTAL = 0.80;
          P_kW = (rho * g * Q_m3_s * H_total) / ETA_TOTAL / 1000
      in P_kW)"

section \<open>Data frames\<close>

text \<open>
  A pandas frame: a time index and named columns, column order kept. Timestamps are
  minutes since 1970-01-01 00:00 (a Thursday). A cell of a cleaned frame is a real; a
  cell that can be NaN is a \<open>real option\<close>, with \<open>None\<close> for NaN.
\<close>

record 'a frame =
  frame_index :: "int list"
  frame_columns :: "(string \<times> 'a list) list"

record series =
  series_index :: "int list"
  series_values :: "real list"

definition n_rows :: "'a frame \<Rightarrow> nat" where
  "n_rows df = length (frame_index df)"

text \<open>\<open>df[col]\<close>: a missing column raises \<open>KeyError\<close>.\<close>

definition getitem :: "'a frame \<Rightarrow> string \<Rightarrow> py_error + 'a list" where
  "getitem df col =
     (case map_of (frame_columns df) col of None \<Rightarrow> Inl (KeyError col) | Some xs \<Rightarrow> Inr xs)"

text \<open>\<open>df[col] = xs\<close>: an existing column is replaced in place, a new one is appended.\<close>

definition setitem :: "'a frame \<Rightarrow> string \<Rightarrow> 'a list \<Rightarrow> 'a frame" where
  "setitem df col xs = df\<lparr>frame_columns := AList.update col xs (frame_columns df)\<rparr>"

text \<open>\<open>xs.iloc[-1]\<close> and \<open>index[-1]\<close>: \<open>IndexError\<close> on an empty sequence.\<close>

definition iloc_last :: "'a list \<Rightarrow> py_error + 'a" where
  "iloc_last xs = (case xs of [] \<Rightarrow> Inl IndexError | _ # _ \<Rightarrow> Inr (last xs))"

text \<open>\<open>df.iloc[i][col]\<close>: the row first (\<open>IndexError\<close>), then the column (\<open>KeyError\<close>).\<close>

definition iloc_cell :: "'a frame \<Rightarrow> nat \<Rightarrow> string \<Rightarrow> py_error + 'a" where
  "iloc_cell df i col =
     (if i < n_rows df
      then (case map_of (frame_columns df) col of
              None \<Rightarrow> Inl (KeyError col)
            | Some xs \<Rightarrow> Inr (xs ! i))
      else Inl IndexError)"

text \<open>\<open>df.iloc[-1].to_dict()\<close>.\<close>

definition iloc_last_to_dict :: "'a frame \<Rightarrow> py_error + (string \<times> 'a) list" where
  "iloc_last_to_dict df =
     (if n_rows df = 0 then Inl IndexError
      else Inr (map (\<lambda>(c, xs). (c, last xs)) (frame_columns df)))"

text \<open>\<open>xs.shift(lag)\<close>: the first \<open>lag\<close> cells are NaN, the rest are the cells \<open>lag\<close> rows up.\<close>

definition shift :: "nat \<Rightarrow> real option list \<Rightarrow> real option list" where
  "shift lag xs = replicate (min lag (length xs)) None @ take (length xs - lag) xs"

text \<open>\<open>df.dropna()\<close>: the rows with no NaN cell, in order.\<close>

definition row_has_nan :: "(string \<times> real option list) list \<Rightarrow> nat \<Rightarrow> bool" where
  "row_has_nan cols i = list_ex (\<lambda>(c, xs). xs ! i = None) cols"

definition dropna :: "real option frame \<Rightarrow> real frame" where
  "dropna df =
     (let keep = filter (\<lambda>i. \<not> row_has_nan (frame_columns df) i) [0..<n_rows df]
      in \<lparr>frame_index = map (\<lambda>i. frame_index df ! i) keep,
          frame_columns = map (\<lambda>(c, xs). (c, map (\<lambda>i. the (xs ! i)) keep)) (frame_columns df)\<rparr>)"

definition with_nan :: "real frame \<Rightarrow> real option frame" where
  "with_nan df =
     \<lparr>frame_index = frame_index df,
      frame_columns = map (\<lambda>(c, xs). (c, map Some xs)) (frame_columns df)\<rparr>"

text \<open>Every column of a frame is as long as its index.\<close>

definition wf_frame :: "'a frame \<Rightarrow> bool" where
  "wf_frame df = list_all (\<lambda>(c, xs). length xs = n_rows df) (frame_columns df)"

text \<open>\<open>index.hour\<close>, \<open>index.dayofweek\<close> (Monday is 0) and \<open>pd.date_range\<close> at 15 minutes.\<close>

definition hour_of :: "int \<Rightarrow> real" where
  "hour_of t = real_of_int ((t div 60) mod 24)"

definition dayofweek_of :: "int \<Rightarrow> real" where
  "dayofweek_of t = real_of_int ((t div 1440 + 3) mod 7)"

definition date_range :: "int \<Rightarrow> nat \<Rightarrow> int list" where
  "date_range start periods = map (\<lambda>k. start + 15 * int k) [0..<periods]"

section \<open>The recursive forecast shared by the two agents\<close>

text \<open>Python's \<open>str\<close> of a non-negative integer, and \<open>sub in s\<close> on strings.\<close>

definition digit_char :: "nat \<Rightarrow> char" where
  "digit_char d =
     (if d = 0 then CHR ''0'' else if d = 1 then CHR ''1'' else if d = 2 then CHR ''2''
      else if d = 3 then CHR ''3'' else if d = 4 then CHR ''4'' else if d = 5 then CHR ''5''
      else if d = 6 then CHR ''6'' else if d = 7 then CHR ''7'' else if d = 8 then CHR ''8''
      else CHR ''9'')"

function str_nat :: "nat \<Rightarrow> string" where
  "str_nat n =
     (if n < 10 then [digit_char n]
      else str_nat (n div 10) @ [digit_char (n mod 10)])"
  by pat_completeness auto
termination
  by (relation "measure id") auto

declare str_nat.simps [simp del]

fun has_infix :: "string \<Rightarrow> string \<Rightarrow> bool" where
  "has_infix sub [] = (sub = [])"
| "has_infix sub (c # cs) = (take (length sub) (c # cs) = sub \<or> has_infix sub cs)"

definition lag_key :: "string \<Rightarrow> nat \<Rightarrow> string" where
  "lag_key target_col lag = target_col @ ''_lag_'' @ str_nat lag"

text \<open>
  The historical frame with the calendar columns and the three lag columns added,
  the rows with an undefined lag dropped (\<open>PriceAgent._create_features\<close>; the first
  lines of \<open>InflowAgent.forecast_inflow\<close> are the same statements).
\<close>

fun add_lags :: "string \<Rightarrow> nat list \<Rightarrow> real option frame \<Rightarrow> py_error + real option frame" where
  "add_lags target_col [] df_new = Inr df_new"
| "add_lags target_col (lag # lags) df_new =
     (case getitem df_new target_col of
        Inl e \<Rightarrow> Inl e
      | Inr xs \<Rightarrow> add_lags target_col lags (setitem df_new (lag_key target_col lag) (shift lag xs)))"

definition create_features :: "string \<Rightarrow> real frame \<Rightarrow> py_error + real frame" where
  "create_features target_col df =
     (let df_new = with_nan df;
          df_new = setitem df_new ''hour'' (map (Some \<circ> hour_of) (frame_index df));
          df_new = setitem df_new ''dayofweek'' (map (Some \<circ> dayofweek_of) (frame_index df))
      in case add_lags target_col [1, 4, 24] df_new of
           Inl e \<Rightarrow> Inl e
         | Inr df_new \<Rightarrow> Inr (dropna df_new))"

text \<open>\<open>[col for col in df.columns if 'lag' in col or col in ['hour', 'dayofweek']]\<close>.\<close>

definition is_feature :: "string \<Rightarrow> bool" where
  "is_feature col = (has_infix ''lag'' col \<or> col \<in> set [''hour'', ''dayofweek''])"

definition feature_names :: "'a frame \<Rightarrow> string list" where
  "feature_names df = filter is_feature (map fst (frame_columns df))"

text \<open>\<open>df[features]\<close> for the feature names of \<open>df\<close> itself.\<close>

definition select_features :: "'a frame \<Rightarrow> 'a frame" where
  "select_features df = df\<lparr>frame_columns := filter (\<lambda>(c, xs). is_feature c) (frame_columns df)\<rparr>"

text \<open>
  The lag update at the end of each loop iteration, the same statements in both agents.
  \<open>last_values\<close> is the dictionary, \<open>prev_lag_key\<close> is a string or \<open>None\<close>, and
  \<open>None in last_values\<close> is false since every key is a string.
\<close>

fun shift_lags :: "string \<Rightarrow> real \<Rightarrow> nat list \<Rightarrow> (string \<rightharpoonup> real) \<Rightarrow> (string \<rightharpoonup> real)" where
  "shift_lags target_col next_value [] last_values = last_values"
| "shift_lags target_col next_value (lag # lags) last_values =
     (let key = lag_key target_col lag;
          prev_lag_key = (if lag > 1 then Some (lag_key target_col (lag - 1)) else None)
      in shift_lags target_col next_value lags
           (case (case prev_lag_key of None \<Rightarrow> None | Some k \<Rightarrow> last_values k) of
              Some v \<Rightarrow> last_values(key \<mapsto> v)
            | None \<Rightarrow>
                (if last_values key \<noteq> None then last_values(key \<mapsto> next_value)
                 else last_values)))"

definition update_lags :: "string \<Rightarrow> real \<Rightarrow> (string \<rightharpoonup> real) \<Rightarrow> (string \<rightharpoonup> real)" where
  "update_lags target_col next_value last_values =
     (shift_lags target_col next_value (rev (sort [24, 4, 1])) last_values)
       (lag_key target_col 1 \<mapsto> next_value)"

text \<open>\<open>{k: [last_values[k]] for k in features if 'lag' in k}\<close>: a missing key raises.\<close>

fun lookup_all :: "(string \<rightharpoonup> real) \<Rightarrow> string list \<Rightarrow> py_error + (string \<times> real option) list" where
  "lookup_all d [] = Inr []"
| "lookup_all d (k # ks) =
     (case d k of
        None \<Rightarrow> Inl (KeyError k)
      | Some v \<Rightarrow>
          (case lookup_all d ks of Inl e \<Rightarrow> Inl e | Inr r \<Rightarrow> Inr ((k, Some v) # r)))"

text \<open>
  The loop \<open>for i in range(n_steps)\<close>. The fitted regressor is the parameter
  \<open>predict\<close>, from a one-row frame to a number. \<open>post\<close> is what is done to the prediction
  before it is appended: \<open>max(0, _)\<close> in the inflow agent, nothing in the price agent.
  The lag update takes the prediction itself in both.
\<close>

fun forecast_loop ::
  "((string \<times> real option) list \<Rightarrow> real) \<Rightarrow> (real \<Rightarrow> real) \<Rightarrow> string \<Rightarrow> string list \<Rightarrow>
   real option frame \<Rightarrow> nat list \<Rightarrow> (string \<rightharpoonup> real) \<Rightarrow> real list \<Rightarrow> py_error + real list" where
  "forecast_loop predict post target_col features X_pred [] last_values forecast = Inr forecast"
| "forecast_loop predict post target_col features X_pred (i # rest) last_values forecast =
     (case lookup_all last_values (filter (has_infix ''lag'') features) of
        Inl e \<Rightarrow> Inl e
      | Inr lagged \<Rightarrow>
          (case iloc_cell X_pred i ''hour'' of
             Inl e \<Rightarrow> Inl e
           | Inr h \<Rightarrow>
               (case iloc_cell X_pred i ''dayofweek'' of
                  Inl e \<Rightarrow> Inl e
                | Inr d \<Rightarrow>
                    (let current_features =
                           AList.update ''dayofweek'' d (AList.update ''hour'' h lagged);
                         next_value = predict current_features
                     in forecast_loop predict post target_col features X_pred rest
                          (update_lags target_col next_value last_values)
                          (forecast @ [post next_value])))))"

text \<open>\<open>X_pred\<close>: the forecast index with its calendar columns.\<close>

definition make_X_pred :: "int \<Rightarrow> nat \<Rightarrow> real option frame" where
  "make_X_pred last_time n_steps =
     (let forecast_index = date_range (last_time + 15) n_steps;
          X_pred = \<lparr>frame_index = forecast_index, frame_columns = []\<rparr>;
          X_pred = setitem X_pred ''hour'' (map (Some \<circ> hour_of) forecast_index);
          X_pred = setitem X_pred ''dayofweek'' (map (Some \<circ> dayofweek_of) forecast_index)
      in X_pred)"

record forecast_agent =
  history_df :: "real frame"
  target_col :: string

definition Agent_init :: "(py_error + real frame) \<Rightarrow> string \<Rightarrow> py_error + forecast_agent" where
  "Agent_init load target =
     (case load of
        Inl e \<Rightarrow> Inl e
      | Inr df \<Rightarrow> Inr \<lparr>history_df = df, target_col = target\<rparr>)"

section \<open>agents/inflow_agent.py\<close>

text \<open>
  What \<open>fetch_weather_forecast\<close> returns: on both of its paths a frame with the two
  columns \<open>rain_mm\<close> and \<open>snow_cm\<close>, with any number of rows.
\<close>

record weather_frame =
  weather_index :: "int list"
  rain_mm :: "real list"
  snow_cm :: "real list"

text \<open>\<open>X_pred[col] = weather_forecast[col]\<close>: aligned on the index, NaN where absent.\<close>

definition align :: "int list \<Rightarrow> int list \<Rightarrow> real list \<Rightarrow> real option list" where
  "align idx widx wcol = map (map_of (zip widx wcol)) idx"

definition add_weather :: "real option frame \<Rightarrow> py_error + weather_frame \<Rightarrow> real option frame" where
  "add_weather X_pred weather =
     (case weather of
        Inl e \<Rightarrow> X_pred
      | Inr w \<Rightarrow>
          (let X_pred = setitem X_pred ''rain_mm''
                          (align (frame_index X_pred) (weather_index w) (rain_mm w));
               X_pred = setitem X_pred ''snow_cm''
                          (align (frame_index X_pred) (weather_index w) (snow_cm w))
           in X_pred))"

text \<open>
  \<open>InflowAgent.forecast_inflow\<close>. \<open>fit\<close> is the regressor's training on the feature
  table and the target column; it returns the fitted predictor or raises. \<open>weather\<close>
  is the outcome of \<open>self.fetch_weather_forecast(n_steps)\<close>; an exception there is
  caught and the weather columns are left out. No other statement is inside a handler.
\<close>

definition forecast_inflow ::
  "(real frame \<Rightarrow> real list \<Rightarrow> py_error + ((string \<times> real option) list \<Rightarrow> real)) \<Rightarrow>
   (py_error + weather_frame) \<Rightarrow> forecast_agent \<Rightarrow> nat \<Rightarrow> py_error + series" where
  "forecast_inflow fit weather self n_steps =
     (case create_features (target_col self) (history_df self) of
        Inl e \<Rightarrow> Inl e
      | Inr df_hist \<Rightarrow>
          (let features = feature_names df_hist;
               X_train = select_features df_hist
           in case getitem df_hist (target_col self) of
                Inl e \<Rightarrow> Inl e
              | Inr y_train \<Rightarrow>
                  (case fit X_train y_train of
                     Inl e \<Rightarrow> Inl e
                   | Inr predict \<Rightarrow>
                       (case iloc_last (frame_index (history_df self)) of
                          Inl e \<Rightarrow> Inl e
                        | Inr last_op_time \<Rightarrow>
                            (let X_pred = make_X_pred last_op_time n_steps;
                                 X_pred = add_weather X_pred weather
                             in case iloc_last_to_dict (select_features df_hist) of
                                  Inl e \<Rightarrow> Inl e
                                | Inr last_row \<Rightarrow>
                                    (case forecast_loop predict (max 0) (target_col self) features
                                            X_pred [0..<n_steps] (map_of last_row) [] of
                                       Inl e \<Rightarrow> Inl e
                                     | Inr inflow_forecast \<Rightarrow>
                                         Inr \<lparr>series_index = frame_index X_pred,
                                              series_values = inflow_forecast\<rparr>))))))"

section \<open>agents/price_agent.py\<close>

text \<open>
  \<open>PriceAgent._forecast_with_ml\<close>, with its check for an empty training table before
  the fit.
\<close>

definition forecast_with_ml ::
  "(real frame \<Rightarrow> real list \<Rightarrow> py_error + ((string \<times> real option) list \<Rightarrow> real)) \<Rightarrow>
   forecast_agent \<Rightarrow> nat \<Rightarrow> py_error + series" where
  "forecast_with_ml fit self n_steps =
     (case create_features (target_col self) (history_df self) of
        Inl e \<Rightarrow> Inl e
      | Inr df_features \<Rightarrow>
          (let features = feature_names df_features;
               X_train = select_features df_features
           in case getitem df_features (target_col self) of
                Inl e \<Rightarrow> Inl e
              | Inr y_train \<Rightarrow>
                  if n_rows X_train = 0 then
                    (case getitem (history_df self) (target_col self) of
                       Inl e \<Rightarrow> Inl e
                     | Inr col \<Rightarrow>
                         (case iloc_last col of
                            Inl e \<Rightarrow> Inl e
                          | Inr last_price \<Rightarrow>
                              (case iloc_last (frame_index (history_df self)) of
                                 Inl e \<Rightarrow> Inl e
                               | Inr last_time \<Rightarrow>
                                   Inr \<lparr>series_index = date_range (last_time + 15) n_steps,
                                        series_values = replicate n_steps last_price\<rparr>)))
                  else
                    (case fit X_train y_train of
                       Inl e \<Rightarrow> Inl e
                     | Inr predict \<Rightarrow>
                         (case iloc_last (frame_index df_features) of
                            Inl e \<Rightarrow> Inl e
                          | Inr last_time \<Rightarrow>
                              (let X_pred = make_X_pred last_time n_steps
                               in case iloc_last_to_dict (select_features df_features) of
                                    Inl e \<Rightarrow> Inl e
                                  | Inr last_row \<Rightarrow>
                                      (case forecast_loop predict (\<lambda>p. p) (target_col self) features
                                              X_pred [0..<n_steps] (map_of last_row) [] of
                                         Inl e \<Rightarrow> Inl e
                                       | Inr price_forecast \<Rightarrow>
                                           Inr \<lparr>series_index = frame_index X_pred,
                                                series_values = price_forecast\<rparr>))))))"

text \<open>
  \<open>PriceAgent.fetch_nordpool_prices\<close>. \<open>nordpool\<close> is the outcome of the fetch and of
  the check of its structure: an exception, or the list of (start instant, value in
  EUR/MWh). \<open>wall_time\<close> is the Europe/Helsinki wall-clock reading of an instant: each
  start is converted to that zone, the prices are sorted by it, and the zone is
  dropped from the index of the result. Every exception inside the \<open>try\<close>, and a list
  shorter than \<open>n_steps\<close>, leads to the fallback; an empty list fails at \<open>set_index\<close>.
\<close>

definition fetch_nordpool_prices ::
  "(int \<Rightarrow> int) \<Rightarrow> (py_error + (int \<times> real) list) \<Rightarrow>
   (real frame \<Rightarrow> real list \<Rightarrow> py_error + ((string \<times> real option) list \<Rightarrow> real)) \<Rightarrow>
   forecast_agent \<Rightarrow> nat \<Rightarrow> py_error + series" where
  "fetch_nordpool_prices wall_time nordpool fit self n_steps =
     (case nordpool of
        Inl e \<Rightarrow> forecast_with_ml fit self n_steps
      | Inr vals \<Rightarrow>
          (let price_list = map (\<lambda>(start, v). (start, v / 1000.0)) vals
           in if price_list = [] then forecast_with_ml fit self n_steps
              else
                (let prices_15min = sort_key fst price_list;
                     forecast = take n_steps prices_15min
                 in if length forecast < n_steps then forecast_with_ml fit self n_steps
                    else Inr \<lparr>series_index = map (wall_time \<circ> fst) forecast,
                             series_values = map snd forecast\<rparr>)))"

section \<open>agents/optimization_agent.py\<close>

text \<open>
  \<open>OptimizationAgent.__init__\<close> stores the current level, the two forecast arrays, the
  horizon, the time step in hours and the two interpolants. The call of
  \<open>get_level_volume_interpolator\<close> is outside any handler, so its exception propagates.
\<close>

record optimization_agent =
  L1_start :: real
  prices :: "real list"
  inflow_15min :: "real list"
  horizon :: nat
  dt_h :: real
  V_interp :: py_callable
  L_interp :: py_callable

definition OptimizationAgent_init ::
  "(real list \<Rightarrow> real list \<Rightarrow> py_error + (real \<Rightarrow> real)) \<Rightarrow>
   (py_error + real list \<times> real list) \<Rightarrow>
   real \<Rightarrow> real list \<Rightarrow> real list \<Rightarrow> nat \<Rightarrow> py_error + optimization_agent" where
  "OptimizationAgent_init interp1d csv current_L1 price_forecast inflow_forecast hor =
     (case get_level_volume_interpolator interp1d csv of
        Inl e \<Rightarrow> Inl e
      | Inr (V, L) \<Rightarrow>
          Inr \<lparr>L1_start = current_L1,
               prices = price_forecast,
               inflow_15min = inflow_forecast,
               horizon = hor,
               dt_h = TIMESTEP_MINUTES / 60.0,
               V_interp = V,
               L_interp = L\<rparr>)"

text \<open>
  What \<open>solve_mpc\<close> declares to GEKKO before \<open>m.solve\<close>: the time grid, the two
  parameters, the state \<open>V\<close> with its start value and bounds, the manipulated variable
  \<open>F2\<close> with its start value, bounds and move cost, the intermediates \<open>L1\<close> (of \<open>V\<close>) and
  \<open>P\<close> (of \<open>F2\<close> and \<open>L1\<close>), and the position and value of \<open>m.fix\<close>.
\<close>

record mpc_problem =
  m_time :: "real list"
  Price_t :: "real list"
  F1_t :: "real list"
  V_start :: real
  V_lb :: real
  V_ub :: real
  F2_start :: real
  F2_lb :: real
  F2_ub :: real
  F2_DCOST :: real
  L1_of_V :: "real \<Rightarrow> real"
  P_of_F2_L1 :: "real \<Rightarrow> real \<Rightarrow> real"
  fix_pos :: int
  fix_val :: real

text \<open>The arrays GEKKO leaves in \<open>V.value\<close>, \<open>F2.value\<close> and \<open>P.value\<close> after a solve.\<close>

record mpc_solution =
  V_value :: "real list"
  F2_value :: "real list"
  P_value :: "real list"

text \<open>The columns of the result frame.\<close>

record trajectory =
  L1_m_Optimal :: "real list"
  V_m3_Optimal :: "real list"
  F2_m3h_Optimal :: "real list"
  P_kW_Optimal :: "real list"
  Price_EUR_kWh :: "real list"
  Inflow_m3h :: "real list"

text \<open>
  Name resolution inside \<open>solve_mpc\<close>. A name that the function body never assigns is
  looked up among the module's globals; a name found in neither scope raises
  \<open>NameError\<close>. The two lists are the names bound in \<open>solve_mpc\<close> (its parameter and
  every assignment target, the handler's \<open>e\<close> included) and at the top level of
  \<open>optimization_agent.py\<close> (its imports and its class).
\<close>

definition solve_mpc_locals :: "string list" where
  "solve_mpc_locals =
     [''self'', ''m'', ''L1_min'', ''L1_max'', ''V_start'', ''V_min'', ''V_max'', ''F1_h'',
      ''Price_t'', ''F1_t'', ''V'', ''F2'', ''L1'', ''P'', ''final_L1_values'', ''results'', ''e'']"

definition module_globals :: "string list" where
  "module_globals =
     [''np'', ''pd'', ''GEKKO'', ''TUNNEL_CONSTANTS'', ''get_level_volume_interpolator'',
      ''calculate_power'', ''OptimizationAgent'']"

definition load_name :: "string \<Rightarrow> py_error + unit" where
  "load_name x =
     (if x \<in> set solve_mpc_locals \<or> x \<in> set module_globals then Inr () else Inl (NameError x))"

text \<open>
  The kinds of object the GEKKO calls of \<open>solve_mpc\<close> return: \<open>m.Param\<close> and \<open>m.MV\<close>
  a parameter, \<open>m.Var\<close> a variable, \<open>m.Intermediate\<close> an intermediate. \<open>m.fix\<close> accepts
  a parameter or a variable and raises \<open>TypeError\<close> for anything else.
\<close>

datatype gk_object = GKParameter | GKVariable | GKIntermediate

definition gekko_fix :: "gk_object \<Rightarrow> py_error + unit" where
  "gekko_fix var =
     (case var of
        GKParameter \<Rightarrow> Inr ()
      | GKVariable \<Rightarrow> Inr ()
      | GKIntermediate \<Rightarrow> Inl TypeError)"

text \<open>
  \<open>solve_mpc\<close>, in two parts. The first definition is its \<open>try\<close> block with the
  handler: the solver is a parameter that receives the declared problem and either
  raises or leaves a solution, and every exception inside the block is caught by
  \<open>except Exception\<close> and turned into \<open>None\<close>: the solver's, the one of
  \<open>self.L_interp(V.value)\<close> on the list \<open>V.value\<close>, and the one raised while the
  arguments of \<open>pd.DataFrame\<close> are evaluated (the column dictionary first, then
  \<open>index=inflow_forecast.index\<close>).
\<close>

definition solve_mpc_try ::
  "(mpc_problem \<Rightarrow> py_error + mpc_solution) \<Rightarrow> optimization_agent \<Rightarrow> mpc_problem \<Rightarrow>
   trajectory option" where
  "solve_mpc_try solver self problem =
     (case solver problem of
        Inl e \<Rightarrow> None
      | Inr sol \<Rightarrow>
          (case call_on_list (L_interp self) (V_value sol) of
             Inl e \<Rightarrow> None
           | Inr final_L1_values \<Rightarrow>
               (case load_name ''inflow_forecast'' of
                  Inl e \<Rightarrow> None
                | Inr _ \<Rightarrow>
                    Some \<lparr>L1_m_Optimal = final_L1_values,
                          V_m3_Optimal = V_value sol,
                          F2_m3h_Optimal = F2_value sol,
                          P_kW_Optimal = P_value sol,
                          Price_EUR_kWh = Price_t problem,
                          Inflow_m3h = F1_t problem\<rparr>)))"

text \<open>
  The second definition is the whole method. Two statements before the \<open>try\<close> can
  raise, and their exception goes to the caller: \<open>F1_h[0]\<close> on an empty inflow array
  (\<open>IndexError\<close>), and \<open>m.fix(L1, val=0.5, pos=self.horizon - 1)\<close>, whose \<open>L1\<close> is an
  intermediate.
\<close>

definition solve_mpc ::
  "(mpc_problem \<Rightarrow> py_error + mpc_solution) \<Rightarrow> optimization_agent \<Rightarrow>
   py_error + trajectory option" where
  "solve_mpc solver self =
     (let time_grid = map (\<lambda>i. real i * dt_h self) [0..<horizon self];
          L1_min = L1_MIN;
          L1_max = L1_MAX;
          V_start0 = call (V_interp self) (L1_start self);
          V_min = call (V_interp self) L1_min;
          V_max = call (V_interp self) L1_max;
          F1_h = map (\<lambda>x. x * TIME_STEPS_PER_HOUR) (inflow_15min self)
      in case F1_h of
           [] \<Rightarrow> Inl IndexError
         | F1_h0 # _ \<Rightarrow>
             (let V = GKVariable;
                  F2 = GKParameter;
                  L1 = GKIntermediate;
                  P = GKIntermediate;
                  problem =
                    \<lparr>m_time = time_grid,
                     Price_t = prices self,
                     F1_t = F1_h,
                     V_start = V_start0,
                     V_lb = V_min,
                     V_ub = V_max,
                     F2_start = F1_h0,
                     F2_lb = 100,
                     F2_ub = 10000,
                     F2_DCOST = 0.01,
                     L1_of_V = (\<lambda>v. L1_min + (L1_max - L1_min) * (v - V_min) / (V_max - V_min)),
                     P_of_F2_L1 = calculate_power,
                     fix_pos = int (horizon self) - 1,
                     fix_val = 0.5\<rparr>
              in case gekko_fix L1 of
                   Inl e \<Rightarrow> Inl e
                 | Inr _ \<Rightarrow> Inr (solve_mpc_try solver self problem)))"

section \<open>main.py\<close>

text \<open>
  \<open>run_optimization_cycle\<close>. The parameters are what the cycle gets from outside:
  \<open>load\<close> is the outcome of \<open>load_and_clean_data\<close> (read once by the cycle and once by
  each agent's constructor, from the same file), \<open>wall_time\<close>, \<open>nordpool\<close> and \<open>weather\<close>
  belong to the two fetches, \<open>fit\<close> is the regressor's training, \<open>interp1d\<close> and \<open>csv\<close>
  the calibration table's reading, \<open>solver\<close> the numerical solve. Only the first block
  is inside a handler, which prints and returns. Both forecasters return a series or
  raise, so the test \<open>is None\<close> of the forecasts is never true.

  The outcome says how far the cycle got: it returned from the first handler, it
  raised before the optimiser existed, or it constructed the optimiser and called
  its \<open>solve_mpc\<close>, whose result (an exception that leaves the cycle, \<open>None\<close> or a
  trajectory) is kept beside the optimiser.
\<close>

datatype cycle_outcome =
    Returned_early
  | Raised py_error
  | Optimised optimization_agent "py_error + trajectory option"

definition run_optimization_cycle ::
  "(py_error + real frame) \<Rightarrow>
   (int \<Rightarrow> int) \<Rightarrow>
   (py_error + (int \<times> real) list) \<Rightarrow>
   (py_error + weather_frame) \<Rightarrow>
   (real frame \<Rightarrow> real list \<Rightarrow> py_error + ((string \<times> real option) list \<Rightarrow> real)) \<Rightarrow>
   (real list \<Rightarrow> real list \<Rightarrow> py_error + (real \<Rightarrow> real)) \<Rightarrow>
   (py_error + real list \<times> real list) \<Rightarrow>
   (mpc_problem \<Rightarrow> py_error + mpc_solution) \<Rightarrow> cycle_outcome" where
  "run_optimization_cycle load wall_time nordpool weather fit interp1d csv solver =
     (case (case load of
              Inl e \<Rightarrow> Inl e
            | Inr hist_df \<Rightarrow>
                (case getitem hist_df ''water_level_in_tunnel_l2'' of
                   Inl e \<Rightarrow> Inl e
                 | Inr col \<Rightarrow> iloc_last col)) of
        Inl e \<Rightarrow> Returned_early
      | Inr current_L1 \<Rightarrow>
          (case Agent_init load ''electricity_price_1_high'' of
             Inl e \<Rightarrow> Raised e
           | Inr price_agent \<Rightarrow>
               (case fetch_nordpool_prices wall_time nordpool fit price_agent 96 of
                  Inl e \<Rightarrow> Raised e
                | Inr price_forecast \<Rightarrow>
                    (case Agent_init load ''inflow_to_tunnel_f1'' of
                       Inl e \<Rightarrow> Raised e
                     | Inr inflow_agent \<Rightarrow>
                         (case forecast_inflow fit weather inflow_agent 96 of
                            Inl e \<Rightarrow> Raised e
                          | Inr inflow_forecast \<Rightarrow>
                              (case OptimizationAgent_init interp1d csv current_L1
                                      (series_values price_forecast)
                                      (series_values inflow_forecast)
                                      (length (series_values price_forecast)) of
                                 Inl e \<Rightarrow> Raised e
                               | Inr optimizer \<Rightarrow>
                                   Optimised optimizer (solve_mpc solver optimizer)))))))"

section \<open>A sample history\<close>

text \<open>
  A cleaned history of \<open>n\<close> rows at 15 minutes with the three columns the cycle reads.
\<close>

definition example_history :: "nat \<Rightarrow> real frame" where
  "example_history n =
     \<lparr>frame_index = map (\<lambda>k. 15 * int k) [0..<n],
      frame_columns =
        [(''water_level_in_tunnel_l2'', map (\<lambda>k. 2 + real k / 10) [0..<n]),
         (''inflow_to_tunnel_f1'', map (\<lambda>k. 100 + real k) [0..<n]),
         (''electricity_price_1_high'', replicate n 0.05)]\<rparr>"

section \<open>The frames inside \<open>create_features\<close>\<close>

text \<open>
  The frame after the two calendar columns are set, and the frame after the three lag
  columns are set from the target cells \<open>ys\<close>, before the rows with NaN are dropped.
\<close>

definition calendar_frame :: "real frame \<Rightarrow> real option frame" where
  "calendar_frame df =
     setitem (setitem (with_nan df) ''hour'' (map (Some \<circ> hour_of) (frame_index df)))
       ''dayofweek'' (map (Some \<circ> dayofweek_of) (frame_index df))"

definition before_dropna :: "string \<Rightarrow> real frame \<Rightarrow> real option list \<Rightarrow> real option frame" where
  "before_dropna tc df ys =
     setitem (setitem (setitem (calendar_frame df)
       (lag_key tc 1) (shift 1 ys)) (lag_key tc 4) (shift 4 ys)) (lag_key tc 24) (shift 24 ys)"

section \<open>Properties of the tunnel physics\<close>

text \<open>
  C8. When the calibration table file is not found, \<open>get_level_volume_interpolator\<close>
  returns the affine map \<open>volume_of(L) = 10000 L + 350\<close> and \<open>level_of(V) = (V - 350) / 10000\<close>;
  the two are mutually inverse on all reals and both are strictly increasing.
\<close>

theorem fallback_interpolators_inverse_and_increasing:
  "\<exists>volume_of level_of.
     get_level_volume_interpolator interp1d (Inl FileNotFoundError) =
       Inr (PyLambda volume_of, PyLambda level_of) \<and>
     (\<forall>L. volume_of L = 10000 * L + 350) \<and>
     (\<forall>V. level_of V = (V - 350) / 10000) \<and>
     (\<forall>x. level_of (volume_of x) = x) \<and>
     (\<forall>x. volume_of (level_of x) = x) \<and>
     (\<forall>x y. x < y \<longleftrightarrow> volume_of x < volume_of y) \<and>
     (\<forall>x y. x < y \<longleftrightarrow> level_of x < level_of y)"
proof -
  have inv: "(10000 * x - 3500000) / 10000 + 350 = x" for x :: real
    by (simp add: field_simps)
  show ?thesis
    by (simp add: get_level_volume_interpolator_def divide_less_cancel inv)
qed

text \<open>
  C9. For every real flow \<open>Q\<close> and level \<open>L1\<close>, \<open>calculate_power\<close> is the single formula
  \<open>\<rho> g (Q / 3600) ((L2 - L1) + H_friction) / (\<eta> 1000)\<close> with \<open>\<rho> = 1000\<close>, \<open>g = 9.81\<close>,
  \<open>L2 = 40\<close>, \<open>H_friction = 1\<close>, \<open>\<eta> = 0.80\<close>; it has a derivative in the level everywhere,
  also outside the operating bounds.
\<close>

theorem calculate_power_formula:
  "calculate_power Q L1 = 1000 * 9.81 * (Q / 3600) * ((40 - L1) + 1) / (0.80 * 1000) \<and>
   ((\<lambda>L. calculate_power Q L) has_real_derivative (- (1000 * 9.81 * (Q / 3600)) / (0.80 * 1000))) (at L1) \<and>
   ((\<lambda>q. calculate_power q L1) has_real_derivative (1000 * 9.81 * ((40 - L1) + 1) / 3600 / (0.80 * 1000))) (at Q)"
  unfolding calculate_power_def Let_def L2_LEVEL_def
  by (auto intro!: derivative_eq_intros)

section \<open>Frames, features and the forecast loop: auxiliary facts\<close>

lemma getitem_length:
  assumes "wf_frame df" "getitem df c = Inr xs"
  shows "length xs = n_rows df"
proof -
  from assms(2) have "map_of (frame_columns df) c = Some xs"
    by (simp add: getitem_def split: option.splits)
  then have "(c, xs) \<in> set (frame_columns df)" by (rule map_of_SomeD)
  with assms(1) show ?thesis
    by (auto simp: wf_frame_def list_all_iff)
qed

lemma n_rows_setitem [simp]: "n_rows (setitem df c xs) = n_rows df"
  by (simp add: setitem_def n_rows_def)

lemma frame_index_setitem [simp]: "frame_index (setitem df c xs) = frame_index df"
  by (simp add: setitem_def)

lemma map_of_setitem [simp]:
  "map_of (frame_columns (setitem df c xs)) = (map_of (frame_columns df))(c \<mapsto> xs)"
  by (simp add: setitem_def update_conv')

lemma n_rows_with_nan [simp]: "n_rows (with_nan df) = n_rows df"
  by (simp add: with_nan_def n_rows_def)

lemma map_of_with_nan [simp]:
  "map_of (frame_columns (with_nan df)) c = map_option (map Some) (map_of (frame_columns df) c)"
  by (simp add: with_nan_def map_of_map)

lemma map_of_dropna:
  "map_of (frame_columns (dropna df)) c =
     map_option (\<lambda>xs. map (\<lambda>i. the (xs ! i)) (filter (\<lambda>i. \<not> row_has_nan (frame_columns df) i) [0..<n_rows df]))
       (map_of (frame_columns df) c)"
  by (simp add: dropna_def Let_def map_of_map)

lemma n_rows_dropna:
  "n_rows (dropna df) = length (filter (\<lambda>i. \<not> row_has_nan (frame_columns df) i) [0..<n_rows df])"
  by (simp add: dropna_def Let_def n_rows_def)

lemma n_rows_select_features [simp]: "n_rows (select_features df) = n_rows df"
  by (simp add: select_features_def n_rows_def)

lemma lag_key_neq [simp]: "lag_key tc l \<noteq> tc" "tc \<noteq> lag_key tc l"
  by (simp_all add: lag_key_def)

lemma getitem_setitem_other: "c \<noteq> k \<Longrightarrow> getitem (setitem df k v) c = getitem df c"
  by (simp add: getitem_def)

lemma add_lags_Inr:
  "getitem d tc = Inr ys \<Longrightarrow>
   add_lags tc lags d = Inr (fold (\<lambda>lag d. setitem d (lag_key tc lag) (shift lag ys)) lags d)"
  by (induction lags arbitrary: d) (simp_all add: getitem_setitem_other)

lemma add_lags_Inl:
  "getitem d tc = Inl e \<Longrightarrow> lags \<noteq> [] \<Longrightarrow> add_lags tc lags d = Inl e"
  by (cases lags) simp_all

lemma shift_nth_None: "i < length xs \<Longrightarrow> i < lag \<Longrightarrow> shift lag xs ! i = None"
  by (simp add: shift_def nth_append)

lemma shift_nth_Some:
  assumes "i < length xs" "lag \<le> i"
  shows "shift lag xs ! i = xs ! (i - lag)"
proof -
  from assms have a: "i - lag < length xs - lag" by arith
  have "take (length xs - lag) xs ! (i - lag) = xs ! (i - lag)"
    using a by (rule nth_take)
  then show ?thesis
    using assms by (simp add: shift_def nth_append min_def)
qed

lemma shift_nth_not_None:
  assumes "i < length xs" "lag \<le> i" "None \<notin> set xs"
  shows "shift lag xs ! i \<noteq> None"
proof -
  from assms(1) have "xs ! (i - lag) \<in> set xs" by simp
  with assms(3) have "xs ! (i - lag) \<noteq> None" by metis
  then show ?thesis using assms(1,2) by (simp add: shift_nth_Some)
qed

lemma length_shift [simp]: "length (shift lag xs) = length xs"
  by (simp add: shift_def)

lemma row_has_nan_iff:
  "row_has_nan cols i \<longleftrightarrow> (\<exists>(c, xs) \<in> set cols. xs ! i = None)"
  by (simp add: row_has_nan_def list_ex_iff)


lemma create_features_calendar:
  "create_features tc df =
     (case add_lags tc [1, 4, 24] (calendar_frame df) of
        Inl e \<Rightarrow> Inl e
      | Inr d \<Rightarrow> Inr (dropna d))"
  by (simp only: create_features_def Let_def calendar_frame_def)

lemma create_features_Inr:
  "getitem (calendar_frame df) tc = Inr ys \<Longrightarrow>
   create_features tc df = Inr (dropna (before_dropna tc df ys))"
  using add_lags_Inr [of "calendar_frame df" tc ys "[1, 4, 24]"]
  by (simp add: create_features_calendar before_dropna_def del: add_lags.simps)

lemma create_features_Inl:
  "getitem (calendar_frame df) tc = Inl e \<Longrightarrow> create_features tc df = Inl e"
  using add_lags_Inl [of "calendar_frame df" tc e "[1, 4, 24]"]
  by (simp add: create_features_calendar del: add_lags.simps)

lemma n_rows_calendar_frame [simp]: "n_rows (calendar_frame df) = n_rows df"
  by (simp add: calendar_frame_def)

lemma n_rows_before_dropna [simp]: "n_rows (before_dropna tc df ys) = n_rows df"
  by (simp add: before_dropna_def)

lemma calendar_column_exists:
  "getitem df tc = Inr xs \<Longrightarrow> \<exists>ys. getitem (calendar_frame df) tc = Inr ys"
  by (auto simp: getitem_def calendar_frame_def split: option.splits)

lemma calendar_column:
  assumes "wf_frame df" "getitem (calendar_frame df) tc = Inr ys"
  shows "length ys = n_rows df" and "None \<notin> set ys"
proof -
  from assms(2) have m: "map_of (frame_columns (calendar_frame df)) tc = Some ys"
    by (simp add: getitem_def split: option.splits)
  then consider "ys = map (Some \<circ> dayofweek_of) (frame_index df)"
    | "ys = map (Some \<circ> hour_of) (frame_index df)"
    | xs where "map_of (frame_columns df) tc = Some xs" "ys = map Some xs"
    by (auto simp: calendar_frame_def split: if_splits)
  then have "length ys = n_rows df \<and> None \<notin> set ys"
  proof cases
    case 1
    then show ?thesis by (auto simp: n_rows_def)
  next
    case 2
    then show ?thesis by (auto simp: n_rows_def)
  next
    case 3
    from 3(1) have "getitem df tc = Inr xs" by (simp add: getitem_def)
    with assms(1) have "length xs = n_rows df" by (rule getitem_length)
    with 3(2) show ?thesis by auto
  qed
  then show "length ys = n_rows df" and "None \<notin> set ys" by simp_all
qed

lemma lag24_column:
  "(lag_key tc 24, shift 24 ys) \<in> set (frame_columns (before_dropna tc df ys))"
  by (rule map_of_SomeD) (simp add: before_dropna_def)

lemma dropna_short:
  assumes "wf_frame df" "getitem (calendar_frame df) tc = Inr ys" "n_rows df \<le> 24"
  shows "n_rows (dropna (before_dropna tc df ys)) = 0"
proof -
  have len: "length ys = n_rows df" using assms(1,2) by (rule calendar_column)
  have "row_has_nan (frame_columns (before_dropna tc df ys)) i" if "i < n_rows df" for i
  proof -
    from that len assms(3) have "shift 24 ys ! i = None"
      by (intro shift_nth_None) simp_all
    with lag24_column [of tc ys df] show ?thesis
      unfolding row_has_nan_iff by blast
  qed
  then show ?thesis
    by (simp add: n_rows_dropna filter_empty_conv)
qed

lemma in_set_update:
  "p \<in> set (AList.update k v al) \<Longrightarrow> p = (k, v) \<or> p \<in> set al"
  by (induction al) (auto split: if_splits)

lemma in_set_setitem:
  "p \<in> set (frame_columns (setitem df k v)) \<Longrightarrow> p = (k, v) \<or> p \<in> set (frame_columns df)"
  by (simp add: setitem_def in_set_update)

lemma before_dropna_columns:
  assumes "(c, zs) \<in> set (frame_columns (before_dropna tc df ys))"
  shows "(\<exists>xs. (c, xs) \<in> set (frame_columns df) \<and> zs = map Some xs)
       \<or> zs = map (Some \<circ> hour_of) (frame_index df)
       \<or> zs = map (Some \<circ> dayofweek_of) (frame_index df)
       \<or> zs = shift 1 ys \<or> zs = shift 4 ys \<or> zs = shift 24 ys"
proof -
  note step = in_set_setitem
  from assms have "zs = shift 24 ys \<or> zs = shift 4 ys \<or> zs = shift 1 ys
      \<or> zs = map (Some \<circ> dayofweek_of) (frame_index df)
      \<or> zs = map (Some \<circ> hour_of) (frame_index df)
      \<or> (c, zs) \<in> set (frame_columns (with_nan df))"
    unfolding before_dropna_def calendar_frame_def
    by (blast dest: step)
  moreover have "\<exists>xs. (c, xs) \<in> set (frame_columns df) \<and> zs = map Some xs"
    if "(c, zs) \<in> set (frame_columns (with_nan df))"
    using that by (auto simp: with_nan_def)
  ultimately show ?thesis by blast
qed

lemma dropna_long:
  assumes "wf_frame df" "getitem (calendar_frame df) tc = Inr ys" "24 < n_rows df"
  shows "0 < n_rows (dropna (before_dropna tc df ys))"
proof -
  have len: "length ys = n_rows df" and some: "None \<notin> set ys"
    using assms(1,2) by (rule calendar_column)+
  define i where "i = n_rows df - 1"
  have i: "i < n_rows df" "24 \<le> i" using assms(3) by (simp_all add: i_def)
  have "\<not> row_has_nan (frame_columns (before_dropna tc df ys)) i"
  proof
    assume "row_has_nan (frame_columns (before_dropna tc df ys)) i"
    then obtain c zs where cz: "(c, zs) \<in> set (frame_columns (before_dropna tc df ys))" "zs ! i = None"
      unfolding row_has_nan_iff by blast
    from before_dropna_columns [OF cz(1)] show False
    proof (elim disjE exE conjE)
      fix xs assume "(c, xs) \<in> set (frame_columns df)" "zs = map Some xs"
      moreover from this assms(1) have "length xs = n_rows df"
        by (auto simp: wf_frame_def list_all_iff)
      ultimately show False using cz(2) i by simp
    next
      assume "zs = map (Some \<circ> hour_of) (frame_index df)"
      then show False using cz(2) i by (simp add: n_rows_def)
    next
      assume "zs = map (Some \<circ> dayofweek_of) (frame_index df)"
      then show False using cz(2) i by (simp add: n_rows_def)
    next
      assume "zs = shift 1 ys"
      then show False using cz(2) i len some shift_nth_not_None [of i ys 1] by simp
    next
      assume "zs = shift 4 ys"
      then show False using cz(2) i len some shift_nth_not_None [of i ys 4] by simp
    next
      assume "zs = shift 24 ys"
      then show False using cz(2) i len some shift_nth_not_None [of i ys 24] by simp
    qed
  qed
  with i(1) have "\<exists>j \<in> set [0..<n_rows df]. \<not> row_has_nan (frame_columns (before_dropna tc df ys)) j"
    by auto
  then show ?thesis
    by (simp add: n_rows_dropna filter_empty_conv del: set_upt)
qed

lemma iloc_last_to_dict_Inr:
  "0 < n_rows df \<Longrightarrow>
   iloc_last_to_dict df = Inr (map (\<lambda>(c, xs). (c, last xs)) (frame_columns df))"
  by (simp add: iloc_last_to_dict_def)

lemma iloc_last_to_dict_Inl:
  "n_rows df = 0 \<Longrightarrow> iloc_last_to_dict df = Inl IndexError"
  by (simp add: iloc_last_to_dict_def)

lemma dom_last_row:
  "dom (map_of (map (\<lambda>(c, xs). (c, last xs)) (frame_columns (select_features df)))) =
   set (feature_names df)"
proof -
  have "map fst (map (\<lambda>(c, xs). (c, last xs)) (frame_columns (select_features df))) =
        feature_names df"
    by (induction "frame_columns df" arbitrary: df)
       (auto simp: select_features_def feature_names_def filter_map comp_def case_prod_unfold)
  then show ?thesis
    by (metis dom_map_of_conv_image_fst list.set_map)
qed

lemma shift_lags_dom: "dom lv \<subseteq> dom (shift_lags tc v lags lv)"
proof (induction lags arbitrary: lv)
  case Nil
  show ?case by simp
next
  case (Cons lag lags)
  let ?lv' = "(case (case (if lag > 1 then Some (lag_key tc (lag - 1)) else None) of
                  None \<Rightarrow> None | Some k \<Rightarrow> lv k) of
               Some w \<Rightarrow> lv(lag_key tc lag \<mapsto> w)
             | None \<Rightarrow> (if lv (lag_key tc lag) \<noteq> None then lv(lag_key tc lag \<mapsto> v) else lv))"
  have "dom lv \<subseteq> dom ?lv'"
    by (auto split: option.splits if_splits)
  also have "\<dots> \<subseteq> dom (shift_lags tc v lags ?lv')" by (rule Cons.IH)
  finally show ?case by (simp add: Let_def)
qed

lemma update_lags_dom: "dom lv \<subseteq> dom (update_lags tc v lv)"
  using shift_lags_dom [of lv tc v "rev (sort [24, 4, 1])"]
  by (auto simp: update_lags_def simp del: sort_key_simps)

lemma lookup_all_Inr:
  "set ks \<subseteq> dom d \<Longrightarrow> \<exists>r. lookup_all d ks = Inr r"
  by (induction ks) (auto split: option.splits sum.splits)

lemma forecast_loop_ok:
  assumes "set (filter (has_infix ''lag'') features) \<subseteq> dom lv"
    and "\<And>i. i \<in> set steps \<Longrightarrow> i < n_rows X"
    and "map_of (frame_columns X) ''hour'' \<noteq> None"
    and "map_of (frame_columns X) ''dayofweek'' \<noteq> None"
  shows "\<exists>ys. forecast_loop predict post tc features X steps lv acc = Inr (acc @ ys) \<and>
              length ys = length steps \<and> set ys \<subseteq> range post"
  using assms(1,2)
proof (induction steps arbitrary: lv acc)
  case Nil
  then show ?case by simp
next
  case (Cons i steps)
  from Cons.prems(1) obtain lagged where
    lagged: "lookup_all lv (filter (has_infix ''lag'') features) = Inr lagged"
    using lookup_all_Inr by blast
  have i: "i < n_rows X" using Cons.prems(2) by simp
  from assms(3) i obtain h where h: "iloc_cell X i ''hour'' = Inr h"
    by (auto simp: iloc_cell_def)
  from assms(4) i obtain d where d: "iloc_cell X i ''dayofweek'' = Inr d"
    by (auto simp: iloc_cell_def)
  define nv where "nv = predict (AList.update ''dayofweek'' d (AList.update ''hour'' h lagged))"
  have sub: "set (filter (has_infix ''lag'') features) \<subseteq> dom (update_lags tc nv lv)"
    using Cons.prems(1) update_lags_dom by blast
  from Cons.IH [OF sub, of "acc @ [post nv]"] Cons.prems(2)
  obtain ys where ys:
    "forecast_loop predict post tc features X steps (update_lags tc nv lv) (acc @ [post nv])
       = Inr ((acc @ [post nv]) @ ys)"
    "length ys = length steps" "set ys \<subseteq> range post"
    by auto
  have "forecast_loop predict post tc features X (i # steps) lv acc = Inr (acc @ (post nv # ys))"
    using lagged h d ys(1) by (simp add: Let_def nv_def)
  moreover have "length (post nv # ys) = length (i # steps)" using ys(2) by simp
  moreover have "set (post nv # ys) \<subseteq> range post" using ys(3) by auto
  ultimately show ?case by blast
qed

lemma length_date_range [simp]: "length (date_range t n) = n"
  by (simp add: date_range_def)

lemma n_rows_make_X_pred [simp]: "n_rows (make_X_pred t n) = n"
  by (simp add: make_X_pred_def Let_def n_rows_def)

lemma n_rows_add_weather [simp]: "n_rows (add_weather X w) = n_rows X"
  by (simp add: add_weather_def Let_def split: sum.split)

lemma frame_index_add_weather [simp]: "frame_index (add_weather X w) = frame_index X"
  by (simp add: add_weather_def Let_def split: sum.split)

lemma make_X_pred_columns:
  "map_of (frame_columns (make_X_pred t n)) ''hour'' \<noteq> None"
  "map_of (frame_columns (make_X_pred t n)) ''dayofweek'' \<noteq> None"
  by (simp_all add: make_X_pred_def Let_def)

lemma add_weather_columns:
  "map_of (frame_columns (add_weather X w)) ''hour'' = map_of (frame_columns X) ''hour''"
  "map_of (frame_columns (add_weather X w)) ''dayofweek'' = map_of (frame_columns X) ''dayofweek''"
  by (simp_all add: add_weather_def Let_def split: sum.split)

lemma iloc_last_Inr: "xs \<noteq> [] \<Longrightarrow> iloc_last xs = Inr (last xs)"
  by (cases xs) (simp_all add: iloc_last_def)

lemma getitem_before_dropna:
  "getitem (calendar_frame df) tc = Inr ys \<Longrightarrow>
   map_of (frame_columns (before_dropna tc df ys)) tc \<noteq> None"
  by (auto simp: before_dropna_def getitem_def split: option.splits)

lemma getitem_create_features:
  assumes "getitem (calendar_frame df) tc = Inr ys"
  shows "\<exists>zs. getitem (dropna (before_dropna tc df ys)) tc = Inr zs"
  using getitem_before_dropna [OF assms]
  by (auto simp: getitem_def map_of_dropna split: option.splits)

lemma forecast_loop_shape:
  "forecast_loop predict post tc features X steps lv acc = Inr zs \<Longrightarrow>
   \<exists>raw. zs = acc @ map post raw \<and> length raw = length steps \<and> set raw \<subseteq> range predict"
proof (induction steps arbitrary: lv acc)
  case Nil
  then show ?case by simp
next
  case (Cons i steps)
  from Cons.prems obtain lv' cf where
    "forecast_loop predict post tc features X steps lv' (acc @ [post (predict cf)]) = Inr zs"
    by (auto simp: Let_def split: sum.splits)
  from Cons.IH [OF this] obtain raw where
    "zs = (acc @ [post (predict cf)]) @ map post raw" "length raw = length steps"
    "set raw \<subseteq> range predict"
    by blast
  then have "zs = acc @ map post (predict cf # raw)"
    "length (predict cf # raw) = length (i # steps)"
    "set (predict cf # raw) \<subseteq> range predict"
    by auto
  then show ?case by blast
qed

lemma forecast_inflow_shape:
  assumes "forecast_inflow fit weather self n_steps = Inr s"
  shows "\<exists>X y predict raw.
           fit X y = Inr predict \<and> length raw = n_steps \<and> set raw \<subseteq> range predict \<and>
           series_values s = map (max 0) raw \<and> length (series_index s) = n_steps"
proof -
  from assms obtain X y predict features Xp lv zs t where
    fit: "fit X y = Inr predict"
    and loop: "forecast_loop predict (max 0) (target_col self) features Xp [0..<n_steps] lv [] = Inr zs"
    and s: "s = \<lparr>series_index = frame_index (add_weather (make_X_pred t n_steps) weather),
                series_values = zs\<rparr>"
    by (auto simp: forecast_inflow_def Let_def split: sum.splits)
  from forecast_loop_shape [OF loop] obtain raw where
    "zs = map (max 0) raw" "length raw = n_steps" "set raw \<subseteq> range predict"
    by auto
  moreover have "length (frame_index (add_weather (make_X_pred t n_steps) weather)) = n_steps"
    by (simp add: make_X_pred_def Let_def)
  ultimately show ?thesis using s fit by auto
qed

lemma forecast_inflow_returns:
  assumes wf: "wf_frame (history_df self)"
    and rows: "24 < n_rows (history_df self)"
    and col: "getitem (history_df self) (target_col self) = Inr xs"
    and fit: "\<And>X y. \<exists>p. fit X y = Inr p"
  shows "\<exists>ys. forecast_inflow fit weather self n_steps =
            Inr \<lparr>series_index = date_range (last (frame_index (history_df self)) + 15) n_steps,
                 series_values = ys\<rparr>"
proof -
  obtain cells where cells: "getitem (calendar_frame (history_df self)) (target_col self) = Inr cells"
    using calendar_column_exists [OF col] by blast
  define d where "d = dropna (before_dropna (target_col self) (history_df self) cells)"
  have cf: "create_features (target_col self) (history_df self) = Inr d"
    using cells by (simp add: create_features_Inr d_def)
  obtain y_train where y: "getitem d (target_col self) = Inr y_train"
    using getitem_create_features [OF cells] by (auto simp: d_def)
  obtain p where p: "fit (select_features d) y_train = Inr p"
    using fit by blast
  have pos: "0 < n_rows d" unfolding d_def using wf cells rows by (rule dropna_long)
  have idx: "frame_index (history_df self) \<noteq> []" using rows by (auto simp: n_rows_def)
  define X where "X = add_weather (make_X_pred (last (frame_index (history_df self))) n_steps) weather"
  define lv where "lv = map_of (map (\<lambda>(c, xs). (c, last xs)) (frame_columns (select_features d)))"
  have "set (filter (has_infix ''lag'') (feature_names d)) \<subseteq> dom lv"
    unfolding lv_def dom_last_row by auto
  moreover have "\<And>i. i \<in> set [0..<n_steps] \<Longrightarrow> i < n_rows X"
    by (simp add: X_def)
  moreover have "map_of (frame_columns X) ''hour'' \<noteq> None"
    "map_of (frame_columns X) ''dayofweek'' \<noteq> None"
    by (simp_all add: X_def add_weather_columns make_X_pred_columns)
  ultimately obtain ys where
    ys: "forecast_loop p (max 0) (target_col self) (feature_names d) X [0..<n_steps] lv [] = Inr ([] @ ys)"
    using forecast_loop_ok [of "feature_names d" lv "[0..<n_steps]" X p "max 0" "target_col self" "[]"]
    by blast
  have fi: "frame_index X = date_range (last (frame_index (history_df self)) + 15) n_steps"
    by (simp add: X_def make_X_pred_def Let_def)
  have "forecast_inflow fit weather self n_steps =
      Inr \<lparr>series_index = frame_index X, series_values = ys\<rparr>"
    using cf y p pos idx ys
    by (simp add: forecast_inflow_def Let_def iloc_last_Inr iloc_last_to_dict_Inr
          X_def [symmetric] lv_def [symmetric])
  with fi show ?thesis by simp
qed

lemma forecast_inflow_short_history:
  assumes wf: "wf_frame (history_df self)"
    and rows: "n_rows (history_df self) \<le> 24"
  shows "\<exists>e. forecast_inflow fit weather self n_steps = Inl e"
proof (cases "getitem (calendar_frame (history_df self)) (target_col self)")
  case (Inl e)
  then show ?thesis
    by (simp add: forecast_inflow_def create_features_Inl)
next
  case (Inr cells)
  define d where "d = dropna (before_dropna (target_col self) (history_df self) cells)"
  have cf: "create_features (target_col self) (history_df self) = Inr d"
    using Inr by (simp add: create_features_Inr d_def)
  have "n_rows d = 0" unfolding d_def using wf Inr rows by (rule dropna_short)
  then have "iloc_last_to_dict (select_features d) = Inl IndexError"
    by (simp add: iloc_last_to_dict_Inl)
  then show ?thesis
    using cf by (auto simp: forecast_inflow_def Let_def split: sum.splits)
qed

lemma forecast_with_ml_short_history:
  assumes wf: "wf_frame (history_df self)"
    and rows: "n_rows (history_df self) \<le> 24" "0 < n_rows (history_df self)"
    and col: "getitem (history_df self) (target_col self) = Inr xs"
  shows "forecast_with_ml fit self n_steps =
           Inr \<lparr>series_index = date_range (last (frame_index (history_df self)) + 15) n_steps,
                series_values = replicate n_steps (last xs)\<rparr>"
proof -
  obtain cells where cells: "getitem (calendar_frame (history_df self)) (target_col self) = Inr cells"
    using calendar_column_exists [OF col] by blast
  define d where "d = dropna (before_dropna (target_col self) (history_df self) cells)"
  have cf: "create_features (target_col self) (history_df self) = Inr d"
    using cells by (simp add: create_features_Inr d_def)
  obtain y_train where y: "getitem d (target_col self) = Inr y_train"
    using getitem_create_features [OF cells] by (auto simp: d_def)
  have zero: "n_rows d = 0" unfolding d_def using wf cells rows(1) by (rule dropna_short)
  have "length xs = n_rows (history_df self)" using wf col by (rule getitem_length)
  with rows(2) have xs: "xs \<noteq> []" by auto
  have idx: "frame_index (history_df self) \<noteq> []" using rows(2) by (auto simp: n_rows_def)
  show ?thesis
    using cf y zero col xs idx
    by (simp add: forecast_with_ml_def Let_def iloc_last_Inr)
qed


lemma wf_example_history: "wf_frame (example_history n)"
  by (simp add: wf_frame_def example_history_def n_rows_def)

lemma n_rows_example_history: "n_rows (example_history n) = n"
  by (simp add: example_history_def n_rows_def)

lemma getitem_example_history:
  "getitem (example_history n) ''water_level_in_tunnel_l2'' = Inr (map (\<lambda>k. 2 + real k / 10) [0..<n])"
  "getitem (example_history n) ''inflow_to_tunnel_f1'' = Inr (map (\<lambda>k. 100 + real k) [0..<n])"
  "getitem (example_history n) ''electricity_price_1_high'' = Inr (replicate n 0.05)"
  by (simp_all add: getitem_def example_history_def)

lemma forecast_inflow_short_history_IndexError:
  assumes wf: "wf_frame (history_df self)"
    and rows: "n_rows (history_df self) \<le> 24" "0 < n_rows (history_df self)"
    and col: "getitem (history_df self) (target_col self) = Inr xs"
    and fit: "\<And>X y. \<exists>p. fit X y = Inr p"
  shows "forecast_inflow fit weather self n_steps = Inl IndexError"
proof -
  obtain cells where cells: "getitem (calendar_frame (history_df self)) (target_col self) = Inr cells"
    using calendar_column_exists [OF col] by blast
  define d where "d = dropna (before_dropna (target_col self) (history_df self) cells)"
  have cf: "create_features (target_col self) (history_df self) = Inr d"
    using cells by (simp add: create_features_Inr d_def)
  obtain y_train where y: "getitem d (target_col self) = Inr y_train"
    using getitem_create_features [OF cells] by (auto simp: d_def)
  obtain p where p: "fit (select_features d) y_train = Inr p"
    using fit by blast
  have idx: "frame_index (history_df self) \<noteq> []" using rows(2) by (auto simp: n_rows_def)
  have "n_rows d = 0" unfolding d_def using wf cells rows(1) by (rule dropna_short)
  then have "iloc_last_to_dict (select_features d) = Inl IndexError"
    by (simp add: iloc_last_to_dict_Inl)
  then show ?thesis
    using cf y p idx by (simp add: forecast_inflow_def Let_def iloc_last_Inr)
qed

lemma lag_key_eq [simp]: "lag_key tc a = lag_key tc b \<longleftrightarrow> str_nat a = str_nat b"
  by (simp add: lag_key_def)

lemma str_nat_small:
  "str_nat 1 = ''1''" "str_nat 3 = ''3''" "str_nat 4 = ''4''" "str_nat 23 = ''23''" "str_nat 24 = ''24''"
  by (simp_all add: str_nat.simps digit_char_def)

lemma update_lags_all_new:
  assumes "last_values (lag_key tc 23) = None" "last_values (lag_key tc 3) = None"
    and "last_values (lag_key tc 24) \<noteq> None" "last_values (lag_key tc 4) \<noteq> None"
  shows "update_lags tc v last_values (lag_key tc 24) = Some v"
    and "update_lags tc v last_values (lag_key tc 4) = Some v"
    and "update_lags tc v last_values (lag_key tc 1) = Some v"
  using assms
  by (auto simp: update_lags_def Let_def str_nat_small)

section \<open>Properties of the optimisation agent\<close>

text \<open>
  Every call of \<open>solve_mpc\<close> raises before the solver is called: \<open>IndexError\<close> on an
  empty inflow array, \<open>TypeError\<close> from \<open>m.fix\<close> otherwise. It returns neither a
  trajectory nor \<open>None\<close>.
\<close>

lemma solve_mpc_raises:
  "solve_mpc solver self = (if inflow_15min self = [] then Inl IndexError else Inl TypeError)"
  by (simp add: solve_mpc_def Let_def gekko_fix_def split: list.split)

lemma solve_mpc_never_returns: "solve_mpc solver self \<noteq> Inr r"
  by (simp add: solve_mpc_raises)

text \<open>
  The \<open>try\<close> block, were it reached, would hand no trajectory to the caller either:
  the lookup of \<open>inflow_forecast\<close> fails after every successful solve, and before it the
  call of a fallback lambda on the list \<open>V.value\<close> fails; the handler returns \<open>None\<close>.
\<close>

lemma load_name_inflow_forecast: "load_name ''inflow_forecast'' = Inl (NameError ''inflow_forecast'')"
  by (simp add: load_name_def solve_mpc_locals_def module_globals_def)

lemma solve_mpc_try_None: "solve_mpc_try solver self problem = None"
  by (simp add: solve_mpc_try_def load_name_inflow_forecast split: sum.split)

text \<open>
  The level that \<open>solve_mpc\<close> asks to fix at the last step is the linear one. Where the
  linear level is 0.5 the volume is \<open>V_min\<close>, and the interpolant of the
  post-processing gives 0.5 there too, provided it inverts \<open>V_interp\<close> at \<open>L1_MIN\<close>
  (as the affine pair does).
\<close>

lemma terminal_fix_gives_target_level:
  assumes inv: "call (L_interp self) (call (V_interp self) L1_MIN) = L1_MIN"
    and ne: "call (V_interp self) L1_MAX \<noteq> call (V_interp self) L1_MIN"
    and fixed: "L1_MIN + (L1_MAX - L1_MIN) * (v - call (V_interp self) L1_MIN)
                / (call (V_interp self) L1_MAX - call (V_interp self) L1_MIN) = 0.5"
  shows "v = call (V_interp self) L1_MIN \<and> call (L_interp self) v = 0.5"
proof -
  from fixed ne have "v = call (V_interp self) L1_MIN"
    by (simp add: L1_MIN_def L1_MAX_def)
  with inv show ?thesis by (simp add: L1_MIN_def)
qed

text \<open>
  C1. The claim: whenever the numerical solve succeeds, \<open>solve_mpc\<close> returns a
  trajectory, and \<open>None\<close> only when the solver fails. Here the solver would succeed
  (two steps, affine geometry, start level 0.6, a solution within all bounds that
  reaches \<open>V_min\<close>), and \<open>solve_mpc\<close> returns nothing: it raises \<open>TypeError\<close> at
  \<open>m.fix\<close>, before the solver is called.
\<close>

theorem solve_mpc_raises_TypeError_before_solving:
  "solve_mpc
     (\<lambda>problem. Inr \<lparr>V_value = [6350, 5350], F2_value = [5000, 5000], P_value = [688, 690]\<rparr>)
     \<lparr>L1_start = 0.6, prices = [0.1, 0.1], inflow_15min = [250, 250], horizon = 2,
      dt_h = 0.25, V_interp = PyLambda (\<lambda>L1. 10000 * L1 + 350),
      L_interp = PyLambda (\<lambda>V. (V - 350) / 10000)\<rparr>
   = Inl TypeError"
  by (simp add: solve_mpc_def Let_def gekko_fix_def)

section \<open>Properties of the forecasters\<close>

text \<open>
  C2. The claim: after a prediction, lag 24 receives the old value of lag 4, lag 4 the
  old value of lag 1, and lag 1 the prediction. The code looks for the keys of lag 23
  and lag 3, which the dictionary does not have, and takes the fallback branch: with
  the lags 1, 2, 3 and the prediction 10, every lag is 10 afterwards, where the claim
  expects 10, 1, 2.
\<close>

theorem update_lags_overwrites_every_lag:
  "map (update_lags ''inflow_to_tunnel_f1'' 10
          (map_of [(''hour'', 5), (''dayofweek'', 2),
                   (''inflow_to_tunnel_f1_lag_1'', 1),
                   (''inflow_to_tunnel_f1_lag_4'', 2),
                   (''inflow_to_tunnel_f1_lag_24'', 3)]))
       [''inflow_to_tunnel_f1_lag_1'', ''inflow_to_tunnel_f1_lag_4'', ''inflow_to_tunnel_f1_lag_24'']
   = [Some 10, Some 10, Some 10]"
  by (simp add: update_lags_def lag_key_def str_nat.simps digit_char_def)

text \<open>
  C3. The claim: with zero valid training rows the forecaster returns \<open>H\<close> copies of
  the last known value and does not raise. The price agent does so
  (\<open>forecast_with_ml_short_history\<close>); the inflow agent has no such check and raises
  \<open>IndexError\<close> at \<open>df_hist[features].iloc[-1]\<close>, here on a history of three rows
  with a regressor whose fit succeeds.
\<close>

theorem forecast_inflow_raises_on_short_history:
  "forecast_inflow (\<lambda>X y. Inr (\<lambda>row. 0)) (Inl (ExternalError ''weather''))
     \<lparr>history_df = example_history 3, target_col = ''inflow_to_tunnel_f1''\<rparr> 96
   = Inl IndexError"
  by (rule forecast_inflow_short_history_IndexError)
     (simp_all add: wf_example_history n_rows_example_history getitem_example_history)

text \<open>
  C4. Every series the inflow forecaster returns for the horizon \<open>n_steps\<close> has
  exactly \<open>n_steps\<close> values and timestamps, whatever the weather fetch returned; none
  of its values is negative; and each value is a prediction of the fitted regressor
  clamped at zero, \<open>max 0\<close> of what \<open>predict\<close> gave, in the order of the steps.
\<close>

theorem forecast_inflow_length_and_clamp:
  assumes "forecast_inflow fit weather self n_steps = Inr s"
  shows "length (series_values s) = n_steps \<and> length (series_index s) = n_steps \<and>
         (\<forall>y \<in> set (series_values s). 0 \<le> y) \<and>
         (\<exists>X y predict raw.
            fit X y = Inr predict \<and> set raw \<subseteq> range predict \<and>
            series_values s = map (max 0) raw)"
  using forecast_inflow_shape [OF assms] by auto

theorem forecast_inflow_length_and_clamp_witness:
  "(\<exists>s. forecast_inflow (\<lambda>X y. Inr (\<lambda>row. - 1)) (Inl (ExternalError ''weather''))
          \<lparr>history_df = example_history 25, target_col = ''inflow_to_tunnel_f1''\<rparr> 96 = Inr s \<and>
        series_values s = replicate 96 0 \<and> length (series_index s) = 96) \<and>
   (\<exists>s. forecast_inflow (\<lambda>X y. Inr (\<lambda>row. 7)) (Inl (ExternalError ''weather''))
          \<lparr>history_df = example_history 25, target_col = ''inflow_to_tunnel_f1''\<rparr> 96 = Inr s \<and>
        series_values s = replicate 96 7 \<and> length (series_index s) = 96)"
proof -
  let ?self = "\<lparr>history_df = example_history 25, target_col = ''inflow_to_tunnel_f1''\<rparr>"
  have const: "\<exists>s. forecast_inflow (\<lambda>X y. Inr (\<lambda>row. c)) (Inl (ExternalError ''weather'')) ?self 96 = Inr s \<and>
        series_values s = replicate 96 (max 0 c) \<and> length (series_index s) = 96" for c :: real
  proof -
    let ?fit = "\<lambda>(X :: real frame) (y :: real list).
        (Inr (\<lambda>row. c) :: py_error + ((string \<times> real option) list \<Rightarrow> real))"
    have "\<exists>ys. forecast_inflow ?fit (Inl (ExternalError ''weather'')) ?self 96 =
            Inr \<lparr>series_index = date_range (last (frame_index (history_df ?self)) + 15) 96,
                 series_values = ys\<rparr>"
      by (rule forecast_inflow_returns)
         (simp_all add: wf_example_history n_rows_example_history getitem_example_history)
    then obtain s where
      s: "forecast_inflow ?fit (Inl (ExternalError ''weather'')) ?self 96 = Inr s"
      by blast
    from forecast_inflow_length_and_clamp [OF s] obtain raw where
      len: "length (series_values s) = 96" "length (series_index s) = 96"
      and raw: "set raw \<subseteq> range (\<lambda>row :: (string \<times> real option) list. c)"
        "series_values s = map (max 0) raw"
      by auto
    from raw(1) have "\<forall>v \<in> set raw. v = c" by auto
    then have "replicate (length raw) c = raw" by (rule replicate_length_same)
    with raw(2) len(1) have "series_values s = replicate 96 (max 0 c)"
      by (metis length_map map_replicate)
    with s len(2) show ?thesis by blast
  qed
  from const [of "- 1"] const [of 7] show ?thesis by simp
qed

section \<open>Properties of the cycle\<close>

lemma fetch_nordpool_prices_enough:
  assumes "vals \<noteq> []" "n_steps \<le> length vals"
  shows "\<exists>s. fetch_nordpool_prices wall_time (Inr vals) fit self n_steps = Inr s \<and>
             length (series_values s) = n_steps"
  using assms by (simp add: fetch_nordpool_prices_def Let_def)

text \<open>
  On a well-formed history of more than 24 rows with the level and inflow columns,
  a fit that succeeds, 96 fetched prices and no calibration file, the cycle constructs
  the optimiser, and the optimiser's \<open>solve_mpc\<close> raises \<open>TypeError\<close> out of the cycle.
\<close>

lemma run_optimization_cycle_reaches_optimiser:
  assumes wf: "wf_frame hist" and rows: "24 < n_rows hist"
    and level: "getitem hist ''water_level_in_tunnel_l2'' = Inr col"
    and inflow: "getitem hist ''inflow_to_tunnel_f1'' = Inr xs"
    and fit: "\<And>X y. \<exists>p. fit X y = Inr p"
    and np: "vals \<noteq> []" "96 \<le> length vals"
  shows "\<exists>a. run_optimization_cycle (Inr hist) wall_time (Inr vals) weather fit interp1d
                 (Inl FileNotFoundError) solver = Optimised a (Inl TypeError)"
proof -
  have "length col = n_rows hist" using wf level by (rule getitem_length)
  with rows have col: "col \<noteq> []" by auto
  let ?pa = "\<lparr>history_df = hist, target_col = ''electricity_price_1_high''\<rparr>"
  let ?ia = "\<lparr>history_df = hist, target_col = ''inflow_to_tunnel_f1''\<rparr>"
  obtain ps where ps: "fetch_nordpool_prices wall_time (Inr vals) fit ?pa 96 = Inr ps"
    using fetch_nordpool_prices_enough [OF np] by blast
  have "\<exists>ys. forecast_inflow fit weather ?ia 96 =
          Inr \<lparr>series_index = date_range (last (frame_index (history_df ?ia)) + 15) 96,
               series_values = ys\<rparr>"
    by (rule forecast_inflow_returns) (use wf rows inflow fit in simp_all)
  then obtain fs where fs: "forecast_inflow fit weather ?ia 96 = Inr fs" by blast
  obtain a where a: "OptimizationAgent_init interp1d (Inl FileNotFoundError) (last col)
       (series_values ps) (series_values fs) (length (series_values ps)) = Inr a"
    by (simp add: OptimizationAgent_init_def get_level_volume_interpolator_def)
  have r: "solve_mpc solver a = Inl TypeError"
  proof -
    from forecast_inflow_shape [OF fs] have "series_values fs \<noteq> []" by auto
    with a have "inflow_15min a \<noteq> []"
      by (auto simp: OptimizationAgent_init_def get_level_volume_interpolator_def)
    then show ?thesis by (simp add: solve_mpc_raises)
  qed
  show ?thesis
    using level col ps fs a r
    by (simp add: run_optimization_cycle_def Agent_init_def iloc_last_Inr)
qed

text \<open>
  C10. Whenever the cycle constructs the optimiser, whatever its \<open>solve_mpc\<close> then
  does, the level passed to it as \<open>current_L1\<close> is the last value of the history
  column named \<open>water_level_in_tunnel_l2\<close>.
\<close>

theorem current_level_is_last_of_l2_column:
  assumes "run_optimization_cycle load wall_time nordpool weather fit interp1d csv solver
             = Optimised a res"
  shows "\<exists>hist col. load = Inr hist \<and> getitem hist ''water_level_in_tunnel_l2'' = Inr col \<and>
           col \<noteq> [] \<and> L1_start a = last col"
proof -
  from assms obtain hist col current_L1 pf inf where
    h: "load = Inr hist" "getitem hist ''water_level_in_tunnel_l2'' = Inr col"
       "iloc_last col = Inr current_L1"
    and a: "OptimizationAgent_init interp1d csv current_L1 pf inf (length pf) = Inr a"
    by (auto simp: run_optimization_cycle_def split: sum.splits)
  from h(3) have "col \<noteq> []" "current_L1 = last col"
    by (auto simp: iloc_last_def split: list.splits)
  moreover from a have "L1_start a = current_L1"
    by (auto simp: OptimizationAgent_init_def split: sum.splits)
  ultimately show ?thesis using h by auto
qed

theorem current_level_is_last_of_l2_column_witness:
  "\<exists>a. run_optimization_cycle (Inr (example_history 25)) (\<lambda>t. t + 120)
          (Inr (map (\<lambda>k. (15 * int k, 50)) [0..<96]))
          (Inl (ExternalError ''weather'')) (\<lambda>X y. Inr (\<lambda>row. 100))
          (\<lambda>x y. Inl ValueError) (Inl FileNotFoundError) (\<lambda>problem. Inl (ExternalError ''solver''))
        = Optimised a (Inl TypeError) \<and> L1_start a = 4.4"
proof -
  let ?run = "run_optimization_cycle (Inr (example_history 25)) (\<lambda>t. t + 120)
          (Inr (map (\<lambda>k. (15 * int k, 50)) [0..<96]))
          (Inl (ExternalError ''weather'')) (\<lambda>X y. Inr (\<lambda>row. 100))
          (\<lambda>x y. Inl ValueError) (Inl FileNotFoundError) (\<lambda>problem. Inl (ExternalError ''solver''))"
  have "\<exists>a. ?run = Optimised a (Inl TypeError)"
    by (rule run_optimization_cycle_reaches_optimiser)
       (simp_all add: wf_example_history n_rows_example_history getitem_example_history)
  then obtain a where run: "?run = Optimised a (Inl TypeError)" by blast
  from current_level_is_last_of_l2_column [OF run] obtain hist col where
    "Inr (example_history 25) = (Inr hist :: py_error + real frame)"
    "getitem hist ''water_level_in_tunnel_l2'' = Inr col" "L1_start a = last col"
    by blast
  then have "L1_start a = last (map (\<lambda>k. 2 + real k / 10) [0..<25])"
    using getitem_example_history(1) [of 25] by auto
  also have "\<dots> = 4.4" by (simp add: last_map)
  finally show ?thesis using run by blast
qed

end
